theory Spec2Isabelle
  imports Main
begin

section \<open>String primitives of the host language\<close>

text \<open>
  The worker script only ever inspects the request URL, which the host hands over
  serialised, hence in ASCII. Strings are lists of characters, indices integers, and
  the three string methods the script calls are written out with the results JavaScript
  gives: \<open>endsWith\<close>, \<open>lastIndexOf\<close> (which answers \<open>-1\<close> when the character does not
  occur) and the one-argument \<open>substr\<close> (which counts a negative start from the end).
\<close>

definition endsWith :: "string \<Rightarrow> char \<Rightarrow> bool" where
  "endsWith s c = (s \<noteq> [] \<and> last s = c)"

text \<open>\<open>lastIndexFrom s c n\<close> scans the positions \<open>n - 1\<close> down to \<open>0\<close>.\<close>

fun lastIndexFrom :: "string \<Rightarrow> char \<Rightarrow> nat \<Rightarrow> int" where
  "lastIndexFrom s c 0 = - 1"
| "lastIndexFrom s c (Suc k) = (if s ! k = c then int k else lastIndexFrom s c k)"

definition lastIndexOf :: "string \<Rightarrow> char \<Rightarrow> int" where
  "lastIndexOf s c = lastIndexFrom s c (length s)"

definition substr :: "string \<Rightarrow> int \<Rightarrow> string" where
  "substr s start =
     (if start < 0 then drop (nat (max (int (length s) + start) 0)) s
      else drop (nat start) s)"

section \<open>Headers, requests and responses of the host platform\<close>

text \<open>
  A \<open>Headers\<close> object is a mapping from header names to values in which names are
  compared without regard to ASCII case; \<open>set\<close> replaces the value stored under a name.
  The mapping is keyed by the lower-cased name.
\<close>

type_synonym headers = "string \<rightharpoonup> string"

definition lower_char :: "char \<Rightarrow> char" where
  "lower_char c =
     (if (65::nat) \<le> of_char c \<and> of_char c \<le> (90::nat)
      then char_of (of_char c + (32::nat)) else c)"

definition lower_name :: "string \<Rightarrow> string" where
  "lower_name name = map lower_char name"

definition headers_set :: "headers \<Rightarrow> string \<Rightarrow> string \<Rightarrow> headers" where
  "headers_set h name v = h(lower_name name \<mapsto> v)"

definition headers_get :: "headers \<Rightarrow> string \<Rightarrow> string option" where
  "headers_get h name = h (lower_name name)"

section \<open>Cache policy\<close>

text \<open>\<open>setCachePolicy\<close> of the script that classifies with \<open>getProperties\<close>.\<close>

definition setCachePolicy :: "headers \<Rightarrow> string \<Rightarrow> headers" where
  "setCachePolicy hdrs extension =
     (let longTermCache = [''.css'', ''.ttf'', ''.woff'', ''.woff2'', ''.js'', ''.png'',
                           ''.jpg'', ''.jpeg'', ''.webp'', ''.svg''];
          shortTermCache = [''.ico'', ''.json'']
      in if extension \<in> set longTermCache
         then headers_set hdrs ''Cache-Control'' ''max-age=31536000, public''
         else if extension \<in> set shortTermCache
         then headers_set hdrs ''Cache-Control'' ''max-age=604800, public''
         else hdrs)"

text \<open>\<open>setCachePolicy\<close> of \<open>workers-site/index.js\<close>: one table, one directive.\<close>

definition ws_setCachePolicy :: "headers \<Rightarrow> string \<Rightarrow> headers" where
  "ws_setCachePolicy hdrs extension =
     (let safeToCache = [''.css'', ''.ttf'', ''.woff'', ''.woff2'', ''.js'']
      in if extension \<in> set safeToCache
         then headers_set hdrs ''Cache-Control'' ''max-age=31536000''
         else hdrs)"

section \<open>Path classification\<close>

record properties =
  isFile :: bool
  fileExtension :: string
  missingSlash :: bool
  atRoot :: bool

definition getProperties :: "string \<Rightarrow> properties" where
  "getProperties url_string =
     (let endsWithSlash = endsWith url_string CHR ''/'' in
      if \<not> endsWithSlash then
        (let nameStartIndex = lastIndexOf url_string CHR ''/'';
             atRoot = (nameStartIndex = - 1)
         in if \<not> atRoot then
              (let filename = substr url_string nameStartIndex;
                   extStartIndex = lastIndexOf filename CHR ''.''
               in if extStartIndex = - 1
                  then \<lparr>isFile = False, fileExtension = '''', missingSlash = True,
                        atRoot = atRoot\<rparr>
                  else \<lparr>isFile = True, fileExtension = substr filename extStartIndex,
                        missingSlash = False, atRoot = atRoot\<rparr>)
            else \<lparr>isFile = False, fileExtension = '''', missingSlash = False,
                  atRoot = atRoot\<rparr>)
      else \<lparr>isFile = False, fileExtension = '''', missingSlash = False, atRoot = False\<rparr>)"

section \<open>The request handler\<close>

text \<open>
  Values of the host: a request carries its serialised URL (method and headers travel
  with it untouched), a fetch event carries the request, and a response has a body, a
  status and headers. The asset returned by the key-value store is a response as well.
  A thrown value is an error with an optional \<open>message\<close> and a string form.
\<close>

record request =
  url :: string
  req_method :: string

record event =
  request :: request

record response =
  body :: string
  status :: nat
  headers :: headers

record error =
  message :: "string option"
  toString :: string

text \<open>
  \<open>new URL(s)\<close> runs the host's URL parser, which is not part of the script: it is a
  parameter, answering \<open>None\<close> for a string that is not an absolute URL (the constructor
  then throws a \<open>TypeError\<close>) and otherwise the serialised form of the URL, which the
  \<open>URL\<close> object carries as its \<open>href\<close>. The throw happens outside every \<open>try\<close> of the
  handler, so it ends the run: the outcome of a run is a thrown value or a response.
\<close>

datatype thrown = TypeError

datatype URL = URL (href: string)

definition new_URL :: "(string \<Rightarrow> string option) \<Rightarrow> string \<Rightarrow> thrown + URL" where
  "new_URL parseURL s = (case parseURL s of None \<Rightarrow> Inl TypeError | Some h \<Rightarrow> Inr (URL h))"

text \<open>
  The second argument of \<open>new Response\<close>: the fields it reads. A response passed as that
  argument is read through its accessors and contributes its status and its headers.
  A response spread into an object literal contributes nothing: the spread copies own
  enumerable properties, and \<open>status\<close> and \<open>headers\<close> are accessors of the prototype.
\<close>

record response_init =
  init_status :: "nat option"
  init_headers :: "headers option"

definition as_init :: "response \<Rightarrow> response_init" where
  "as_init r = \<lparr>init_status = Some (status r), init_headers = Some (headers r)\<rparr>"

definition spread :: "response \<Rightarrow> response_init" where
  "spread r = \<lparr>init_status = None, init_headers = None\<rparr>"

text \<open>
  The first argument of \<open>new Response\<close> is a string or the body stream of another
  response. A string body has the type \<open>text/plain;charset=UTF-8\<close>, which the constructor
  records as \<open>Content-Type\<close> unless the headers of the init name one; a stream has no type.
\<close>

datatype body_init = BodyText string | BodyStream string

definition new_Response :: "body_init \<Rightarrow> response_init \<Rightarrow> response" where
  "new_Response b i =
     (let hs = (case init_headers i of None \<Rightarrow> Map.empty | Some h \<Rightarrow> h);
          st = (case init_status i of None \<Rightarrow> 200 | Some st \<Rightarrow> st)
      in case b of
           BodyText s \<Rightarrow>
             \<lparr>body = s, status = st,
              headers = (if headers_get hs ''Content-Type'' = None
                         then headers_set hs ''Content-Type'' ''text/plain;charset=UTF-8''
                         else hs)\<rparr>
         | BodyStream s \<Rightarrow> \<lparr>body = s, status = st, headers = hs\<rparr>)"

definition new_Request :: "string \<Rightarrow> request \<Rightarrow> request" where
  "new_Request u req = req\<lparr>url := u\<rparr>"

definition Response_redirect :: "URL \<Rightarrow> nat \<Rightarrow> response" where
  "Response_redirect u st =
     \<lparr>body = [], status = st, headers = headers_set Map.empty ''Location'' (href u)\<rparr>"

text \<open>
  The options object handed to \<open>getAssetFromKV\<close>: the request-remapping hook and the
  cache-bypass flag, each absent unless the script sets it.
\<close>

record options =
  mapRequestToAsset :: "(request \<Rightarrow> request) option"
  bypassCache :: "bool option"

text \<open>
  The asset store is a collaborator of the script, not part of it: \<open>getAssetFromKV\<close> is a
  parameter of the handler, a function from the event and the options to a thrown error
  or an asset. So is the origin of a URL string, which the host's URL parser computes.
  To speak about which fetches a run performs, the handler returns the list of the
  calls it made to the store, in order, beside its outcome.
\<close>

type_synonym asset_store = "event \<Rightarrow> options \<Rightarrow> error + response"

type_synonym fetch_log = "(event \<times> options) list"

type_synonym run = "(thrown + response) \<times> fetch_log"

definition DEBUG :: bool where
  "DEBUG = False"

text \<open>\<open>e.message || e.toString()\<close>: an absent or empty message is falsy.\<close>

definition error_text :: "error \<Rightarrow> string" where
  "error_text e =
     (case message e of
        None \<Rightarrow> toString e
      | Some m \<Rightarrow> if m = [] then toString e else m)"

text \<open>\<open>handleEvent\<close> of the script that classifies with \<open>getProperties\<close>.\<close>

definition handleEvent ::
    "(string \<Rightarrow> string option) \<Rightarrow> (string \<Rightarrow> string) \<Rightarrow> asset_store \<Rightarrow> event \<Rightarrow> run" where
  "handleEvent parseURL origin getAssetFromKV ev =
     (let url_string = url (request ev);
          props = getProperties url_string
      in if missingSlash props
         then (case new_URL parseURL (url_string @ ''/'') of
                 Inl t \<Rightarrow> (Inl t, [])
               | Inr u \<Rightarrow> (Inr (Response_redirect u 301), []))
         else
           (let opts = \<lparr>mapRequestToAsset = None, bypassCache = None\<rparr>;
                opts = (if DEBUG then opts\<lparr>bypassCache := Some True\<rparr> else opts)
            in case getAssetFromKV ev opts of
                 Inr page \<Rightarrow>
                   (let resp = new_Response (BodyStream (body page)) (as_init page);
                        resp = resp\<lparr>headers :=
                                 headers_set (headers resp) ''X-XSS-Protection'' ''1; mode=block''\<rparr>;
                        resp = resp\<lparr>headers :=
                                 headers_set (headers resp) ''X-Content-Type-Options'' ''nosniff''\<rparr>;
                        resp = resp\<lparr>headers :=
                                 headers_set (headers resp) ''X-Frame-Options'' ''DENY''\<rparr>;
                        resp = resp\<lparr>headers :=
                                 headers_set (headers resp) ''Referrer-Policy'' ''unsafe-url''\<rparr>;
                        resp = resp\<lparr>headers :=
                                 headers_set (headers resp) ''Feature-Policy'' ''none''\<rparr>;
                        resp = (if isFile props
                                then resp\<lparr>headers :=
                                       setCachePolicy (headers resp) (fileExtension props)\<rparr>
                                else resp)
                    in (Inr resp, [(ev, opts)]))
               | Inl e \<Rightarrow>
                   (let failed = new_Response (BodyText (error_text e))
                                   \<lparr>init_status = Some 500, init_headers = None\<rparr>
                    in if \<not> DEBUG then
                         (let opts404 =
                                \<lparr>mapRequestToAsset =
                                   Some (\<lambda>req. new_Request (origin (url req) @ ''/404.html'') req),
                                 bypassCache = None\<rparr>
                          in case getAssetFromKV ev opts404 of
                               Inr notFoundResponse \<Rightarrow>
                                 (Inr (new_Response (BodyStream (body notFoundResponse))
                                         ((spread notFoundResponse)\<lparr>init_status := Some 404\<rparr>)),
                                  [(ev, opts), (ev, opts404)])
                             | Inl e' \<Rightarrow> (Inr failed, [(ev, opts), (ev, opts404)]))
                       else (Inr failed, [(ev, opts)]))))"

text \<open>
  \<open>handleEvent\<close> of \<open>workers-site/index.js\<close>, which classifies the URL inline, into the
  variables \<open>isFile\<close> and \<open>extension\<close>, and returns the redirect from inside the
  classification. What follows the classification is \<open>ws_respond\<close>.
\<close>

definition ws_respond ::
    "(string \<Rightarrow> string) \<Rightarrow> asset_store \<Rightarrow> event \<Rightarrow> bool \<Rightarrow> string \<Rightarrow> run" where
  "ws_respond origin getAssetFromKV ev is_file extension =
     (let opts = \<lparr>mapRequestToAsset = None, bypassCache = None\<rparr>;
          opts = (if DEBUG then opts\<lparr>bypassCache := Some True\<rparr> else opts)
      in case getAssetFromKV ev opts of
           Inr page \<Rightarrow>
             (let resp = new_Response (BodyStream (body page)) (as_init page);
                  resp = resp\<lparr>headers :=
                           headers_set (headers resp) ''X-XSS-Protection'' ''1; mode=block''\<rparr>;
                  resp = resp\<lparr>headers :=
                           headers_set (headers resp) ''X-Content-Type-Options'' ''nosniff''\<rparr>;
                  resp = resp\<lparr>headers :=
                           headers_set (headers resp) ''X-Frame-Options'' ''DENY''\<rparr>;
                  resp = resp\<lparr>headers :=
                           headers_set (headers resp) ''Referrer-Policy'' ''unsafe-url''\<rparr>;
                  resp = resp\<lparr>headers :=
                           headers_set (headers resp) ''Feature-Policy'' ''none''\<rparr>;
                  resp = (if is_file
                          then resp\<lparr>headers := ws_setCachePolicy (headers resp) extension\<rparr>
                          else resp)
              in (Inr resp, [(ev, opts)]))
         | Inl e \<Rightarrow>
             (let failed = new_Response (BodyText (error_text e))
                             \<lparr>init_status = Some 500, init_headers = None\<rparr>
              in if \<not> DEBUG then
                   (let opts404 =
                          \<lparr>mapRequestToAsset =
                             Some (\<lambda>req. new_Request (origin (url req) @ ''/404.html'') req),
                           bypassCache = None\<rparr>
                    in case getAssetFromKV ev opts404 of
                         Inr notFoundResponse \<Rightarrow>
                           (Inr (new_Response (BodyStream (body notFoundResponse))
                                   ((spread notFoundResponse)\<lparr>init_status := Some 404\<rparr>)),
                            [(ev, opts), (ev, opts404)])
                       | Inl e' \<Rightarrow> (Inr failed, [(ev, opts), (ev, opts404)]))
                 else (Inr failed, [(ev, opts)])))"

definition ws_handleEvent ::
    "(string \<Rightarrow> string option) \<Rightarrow> (string \<Rightarrow> string) \<Rightarrow> asset_store \<Rightarrow> event \<Rightarrow> run" where
  "ws_handleEvent parseURL origin getAssetFromKV ev =
     (let url_string = url (request ev);
          endsWithSlash = endsWith url_string CHR ''/''
      in if \<not> endsWithSlash then
           (let nameStartIndex = lastIndexOf url_string CHR ''/'';
                notAtRoot = (nameStartIndex \<noteq> - 1)
            in if notAtRoot then
                 (let filename = substr url_string nameStartIndex;
                      extStartIndex = lastIndexOf filename CHR ''.''
                  in if extStartIndex = - 1
                     then (case new_URL parseURL (url_string @ ''/'') of
                             Inl t \<Rightarrow> (Inl t, [])
                           | Inr u \<Rightarrow> (Inr (Response_redirect u 301), []))
                     else ws_respond origin getAssetFromKV ev True
                            (substr filename extStartIndex))
               else ws_respond origin getAssetFromKV ev False [])
         else ws_respond origin getAssetFromKV ev False [])"

section \<open>Auxiliary definitions\<close>

text \<open>
  Names for what the statements below speak about: the options of the primary fetch and
  of the \<open>/404.html\<close> fetch, the five header assignments of the success path, the outcome
  of \<open>Response.redirect(new URL(s), 301)\<close>, and the code that both scripts run after the
  classification, as one function of the cache policy they call. The lemmas
  \<open>handleEvent_classified\<close> and \<open>ws_handleEvent_classified\<close> show that the two handlers
  are exactly these.
\<close>

definition primary_options :: options where
  "primary_options =
     (let opts = \<lparr>mapRequestToAsset = None, bypassCache = None\<rparr>
      in if DEBUG then opts\<lparr>bypassCache := Some True\<rparr> else opts)"

definition notFound_options :: "(string \<Rightarrow> string) \<Rightarrow> options" where
  "notFound_options origin =
     \<lparr>mapRequestToAsset = Some (\<lambda>req. new_Request (origin (url req) @ ''/404.html'') req),
      bypassCache = None\<rparr>"

definition security_headers :: "headers \<Rightarrow> headers" where
  "security_headers h0 =
     (let h1 = headers_set h0 ''X-XSS-Protection'' ''1; mode=block'';
          h2 = headers_set h1 ''X-Content-Type-Options'' ''nosniff'';
          h3 = headers_set h2 ''X-Frame-Options'' ''DENY'';
          h4 = headers_set h3 ''Referrer-Policy'' ''unsafe-url'';
          h5 = headers_set h4 ''Feature-Policy'' ''none''
      in h5)"

definition redirect_run :: "(string \<Rightarrow> string option) \<Rightarrow> string \<Rightarrow> run" where
  "redirect_run parseURL s =
     (case parseURL s of
        None \<Rightarrow> (Inl TypeError, [])
      | Some h \<Rightarrow> (Inr (Response_redirect (URL h) 301), []))"

definition fetch_and_respond ::
    "(headers \<Rightarrow> string \<Rightarrow> headers) \<Rightarrow> (string \<Rightarrow> string) \<Rightarrow> asset_store \<Rightarrow> event
       \<Rightarrow> bool \<Rightarrow> string \<Rightarrow> run" where
  "fetch_and_respond cachePolicy origin getAssetFromKV ev is_file extension =
     (case getAssetFromKV ev primary_options of
        Inr page \<Rightarrow>
          (Inr \<lparr>body = body page, status = status page,
                headers = (if is_file then cachePolicy (security_headers (headers page)) extension
                           else security_headers (headers page))\<rparr>,
           [(ev, primary_options)])
      | Inl e \<Rightarrow>
          (case getAssetFromKV ev (notFound_options origin) of
             Inr notFoundResponse \<Rightarrow>
               Inr \<lparr>body = body notFoundResponse, status = 404, headers = Map.empty\<rparr>
           | Inl e' \<Rightarrow>
               Inr \<lparr>body = error_text e, status = 500,
                     headers = headers_set Map.empty ''Content-Type''
                                 ''text/plain;charset=UTF-8''\<rparr>,
           [(ev, primary_options), (ev, notFound_options origin)]))"

section \<open>Facts about the string primitives\<close>

lemma lastIndexFrom_absent:
  "(\<forall>k<n. s ! k \<noteq> c) \<Longrightarrow> lastIndexFrom s c n = - 1"
  by (induction n) simp_all

lemma lastIndexFrom_range:
  "lastIndexFrom s c n = - 1 \<or> (0 \<le> lastIndexFrom s c n \<and> lastIndexFrom s c n < int n)"
  by (induction n) auto

lemma lastIndexFrom_found:
  "m < n \<Longrightarrow> s ! m = c \<Longrightarrow> (\<forall>k. m < k \<and> k < n \<longrightarrow> s ! k \<noteq> c)
     \<Longrightarrow> lastIndexFrom s c n = int m"
proof (induction n)
  case 0
  then show ?case by simp
next
  case (Suc n)
  show ?case
  proof (cases "m = n")
    case True
    with Suc.prems show ?thesis by simp
  next
    case False
    with Suc.prems have "m < n" by simp
    moreover from False Suc.prems \<open>m < n\<close> have "s ! n \<noteq> c" by simp
    ultimately show ?thesis using Suc by simp
  qed
qed

lemma lastIndexOf_absent: "c \<notin> set s \<Longrightarrow> lastIndexOf s c = - 1"
  unfolding lastIndexOf_def by (rule lastIndexFrom_absent) (metis nth_mem)

lemma lastIndexOf_last_occurrence:
  assumes "c \<notin> set seg"
  shows "lastIndexOf (pre @ c # seg) c = int (length pre)"
  unfolding lastIndexOf_def
proof (rule lastIndexFrom_found)
  show "length pre < length (pre @ c # seg)" by simp
  show "(pre @ c # seg) ! length pre = c" by simp
  show "\<forall>k. length pre < k \<and> k < length (pre @ c # seg) \<longrightarrow> (pre @ c # seg) ! k \<noteq> c"
  proof (intro allI impI)
    fix k assume k: "length pre < k \<and> k < length (pre @ c # seg)"
    then have "(pre @ c # seg) ! k = seg ! (k - Suc (length pre))"
      by (simp add: nth_append nth_Cons')
    moreover from k have "k - Suc (length pre) < length seg" by auto
    ultimately show "(pre @ c # seg) ! k \<noteq> c" using assms by (metis nth_mem)
  qed
qed

lemma lastIndexOf_range:
  "lastIndexOf s c = - 1 \<or> (0 \<le> lastIndexOf s c \<and> lastIndexOf s c < int (length s))"
  unfolding lastIndexOf_def by (rule lastIndexFrom_range)

lemma lastIndexOf_present: "c \<in> set s \<Longrightarrow> lastIndexOf s c \<noteq> - 1"
proof -
  assume "c \<in> set s"
  then obtain ys zs where "s = ys @ c # zs" "c \<notin> set zs" by (auto dest: split_list_last)
  then show ?thesis by (simp add: lastIndexOf_last_occurrence)
qed

lemma substr_nat: "substr s (int n) = drop n s"
  by (simp add: substr_def)

lemma substr_nonempty: "0 \<le> i \<Longrightarrow> i < int (length s) \<Longrightarrow> substr s i \<noteq> []"
  by (simp add: substr_def)

lemma endsWith_mem: "endsWith s c \<Longrightarrow> c \<in> set s"
  unfolding endsWith_def by (metis last_in_set)

lemma getProperties_trailing_slash:
  "endsWith u CHR ''/'' \<Longrightarrow>
   getProperties u = \<lparr>isFile = False, fileExtension = [], missingSlash = False, atRoot = False\<rparr>"
  by (simp add: getProperties_def)

lemma getProperties_no_slash:
  assumes "CHR ''/'' \<notin> set u"
  shows "getProperties u = \<lparr>isFile = False, fileExtension = [], missingSlash = False, atRoot = True\<rparr>"
proof -
  have "\<not> endsWith u CHR ''/''" using assms by (blast dest: endsWith_mem)
  moreover have "lastIndexOf u CHR ''/'' = - 1" using assms by (rule lastIndexOf_absent)
  ultimately show ?thesis by (simp add: getProperties_def)
qed

lemma not_endsWith_segment:
  assumes "seg \<noteq> []" "CHR ''/'' \<notin> set seg"
  shows "\<not> endsWith (pre @ CHR ''/'' # seg) CHR ''/''"
proof
  assume "endsWith (pre @ CHR ''/'' # seg) CHR ''/''"
  with assms(1) have "endsWith seg CHR ''/''" by (simp add: endsWith_def)
  with assms(2) show False by (blast dest: endsWith_mem)
qed

lemma getProperties_no_dot:
  assumes "seg \<noteq> []" "CHR ''/'' \<notin> set seg" "CHR ''.'' \<notin> set seg"
  shows "getProperties (pre @ CHR ''/'' # seg) =
         \<lparr>isFile = False, fileExtension = [], missingSlash = True, atRoot = False\<rparr>"
proof -
  have e: "\<not> endsWith (pre @ CHR ''/'' # seg) CHR ''/''"
    using assms by (simp add: not_endsWith_segment)
  have i: "lastIndexOf (pre @ CHR ''/'' # seg) CHR ''/'' = int (length pre)"
    using assms by (simp add: lastIndexOf_last_occurrence)
  have f: "substr (pre @ CHR ''/'' # seg) (int (length pre)) = CHR ''/'' # seg"
    by (simp add: substr_nat)
  have d: "lastIndexOf (CHR ''/'' # seg) CHR ''.'' = - 1"
    using assms by (simp add: lastIndexOf_absent)
  show ?thesis unfolding getProperties_def Let_def using e i f d by simp
qed

lemma getProperties_dot:
  assumes "CHR ''/'' \<notin> set (stem @ CHR ''.'' # ext)" "CHR ''.'' \<notin> set ext"
  shows "getProperties (pre @ CHR ''/'' # stem @ CHR ''.'' # ext) =
         \<lparr>isFile = True, fileExtension = CHR ''.'' # ext, missingSlash = False, atRoot = False\<rparr>"
proof -
  let ?seg = "stem @ CHR ''.'' # ext"
  have e: "\<not> endsWith (pre @ CHR ''/'' # ?seg) CHR ''/''"
    using assms(1) by (intro not_endsWith_segment) simp_all
  have i: "lastIndexOf (pre @ CHR ''/'' # ?seg) CHR ''/'' = int (length pre)"
    using assms(1) by (rule lastIndexOf_last_occurrence)
  have f: "substr (pre @ CHR ''/'' # ?seg) (int (length pre)) = CHR ''/'' # ?seg"
    by (simp add: substr_nat)
  have "lastIndexOf ((CHR ''/'' # stem) @ CHR ''.'' # ext) CHR ''.'' = int (length (CHR ''/'' # stem))"
    using assms(2) by (rule lastIndexOf_last_occurrence)
  then have d: "lastIndexOf (CHR ''/'' # ?seg) CHR ''.'' = int (Suc (length stem))" by simp
  have x: "substr (CHR ''/'' # ?seg) (int (Suc (length stem))) = CHR ''.'' # ext"
    unfolding substr_nat by simp
  show ?thesis unfolding getProperties_def Let_def using e i f d x by simp
qed

lemma getProperties_extension_nonempty:
  "isFile (getProperties u) \<Longrightarrow> fileExtension (getProperties u) \<noteq> []"
proof -
  assume a: "isFile (getProperties u)"
  let ?f = "substr u (lastIndexOf u CHR ''/'')"
  from a have d: "lastIndexOf ?f CHR ''.'' \<noteq> - 1"
    and x: "fileExtension (getProperties u) = substr ?f (lastIndexOf ?f CHR ''.'')"
    by (auto simp: getProperties_def Let_def split: if_splits)
  from d lastIndexOf_range[of ?f "CHR ''.''"]
  have "0 \<le> lastIndexOf ?f CHR ''.''" "lastIndexOf ?f CHR ''.'' < int (length ?f)" by auto
  then have "substr ?f (lastIndexOf ?f CHR ''.'') \<noteq> []" by (rule substr_nonempty)
  with x show ?thesis by simp
qed

section \<open>Facts about headers\<close>

lemma lower_name_literals:
  "lower_name ''Cache-Control'' = ''cache-control''"
  "lower_name ''X-XSS-Protection'' = ''x-xss-protection''"
  "lower_name ''X-Content-Type-Options'' = ''x-content-type-options''"
  "lower_name ''X-Frame-Options'' = ''x-frame-options''"
  "lower_name ''Referrer-Policy'' = ''referrer-policy''"
  "lower_name ''Feature-Policy'' = ''feature-policy''"
  "lower_name ''Location'' = ''location''"
  by code_simp+

lemma headers_get_set:
  "headers_get (headers_set h n v) m =
     (if lower_name m = lower_name n then Some v else headers_get h m)"
  by (simp add: headers_get_def headers_set_def)

lemma security_headers_values:
  "headers_get (security_headers h) ''X-XSS-Protection'' = Some ''1; mode=block''"
  "headers_get (security_headers h) ''X-Content-Type-Options'' = Some ''nosniff''"
  "headers_get (security_headers h) ''X-Frame-Options'' = Some ''DENY''"
  "headers_get (security_headers h) ''Referrer-Policy'' = Some ''unsafe-url''"
  "headers_get (security_headers h) ''Feature-Policy'' = Some ''none''"
  by (simp_all add: security_headers_def Let_def headers_get_set lower_name_literals)

lemma security_headers_frame:
  "lower_name n \<notin> {''x-xss-protection'', ''x-content-type-options'', ''x-frame-options'',
                    ''referrer-policy'', ''feature-policy''} \<Longrightarrow>
   headers_get (security_headers h) n = headers_get h n"
  by (simp add: security_headers_def Let_def headers_get_set lower_name_literals)

lemma security_headers_cache_control:
  "headers_get (security_headers h) ''Cache-Control'' = headers_get h ''Cache-Control''"
  by (simp add: security_headers_def Let_def headers_get_set lower_name_literals)

lemma setCachePolicy_other_header:
  "lower_name n \<noteq> ''cache-control'' \<Longrightarrow>
   headers_get (setCachePolicy h x) n = headers_get h n"
  by (simp add: setCachePolicy_def Let_def headers_get_set lower_name_literals)

lemma ws_setCachePolicy_other_header:
  "lower_name n \<noteq> ''cache-control'' \<Longrightarrow>
   headers_get (ws_setCachePolicy h x) n = headers_get h n"
  by (simp add: ws_setCachePolicy_def Let_def headers_get_set lower_name_literals)

lemma setCachePolicy_untouched:
  "x \<notin> {''.css'', ''.ttf'', ''.woff'', ''.woff2'', ''.js'', ''.png'', ''.jpg'', ''.jpeg'',
          ''.webp'', ''.svg'', ''.ico'', ''.json''} \<Longrightarrow> setCachePolicy h x = h"
  by (simp add: setCachePolicy_def Let_def)

lemma ws_setCachePolicy_untouched:
  "x \<notin> {''.css'', ''.ttf'', ''.woff'', ''.woff2'', ''.js''} \<Longrightarrow> ws_setCachePolicy h x = h"
  by (simp add: ws_setCachePolicy_def Let_def)

section \<open>Facts about the handlers\<close>

lemma headers_get_empty: "headers_get Map.empty n = None"
  by (simp add: headers_get_def)

lemma new_Response_stream:
  "new_Response (BodyStream b) (as_init r) = \<lparr>body = b, status = status r, headers = headers r\<rparr>"
  by (simp add: new_Response_def as_init_def)

lemma new_Response_spread_404:
  "new_Response (BodyStream b) ((spread r)\<lparr>init_status := Some 404\<rparr>)
     = \<lparr>body = b, status = 404, headers = Map.empty\<rparr>"
  by (simp add: new_Response_def spread_def)

lemma new_Response_text_500:
  "new_Response (BodyText t) \<lparr>init_status = Some 500, init_headers = None\<rparr>
     = \<lparr>body = t, status = 500,
        headers = headers_set Map.empty ''Content-Type'' ''text/plain;charset=UTF-8''\<rparr>"
  by (simp add: new_Response_def headers_get_empty)

lemma handleEvent_classified:
  "handleEvent parseURL origin kv ev =
     (let props = getProperties (url (request ev))
      in if missingSlash props
         then redirect_run parseURL (url (request ev) @ ''/'')
         else fetch_and_respond setCachePolicy origin kv ev
                (isFile props) (fileExtension props))"
  by (simp add: handleEvent_def fetch_and_respond_def primary_options_def
        notFound_options_def security_headers_def new_Response_stream
        new_Response_spread_404 new_Response_text_500 DEBUG_def redirect_run_def new_URL_def
        Let_def split: sum.split option.split)

lemma ws_respond_eq:
  "ws_respond origin kv ev f x = fetch_and_respond ws_setCachePolicy origin kv ev f x"
  by (simp add: ws_respond_def fetch_and_respond_def primary_options_def
        notFound_options_def security_headers_def new_Response_stream
        new_Response_spread_404 new_Response_text_500 DEBUG_def
        Let_def split: sum.split)

lemma ws_handleEvent_classified:
  "ws_handleEvent parseURL origin kv ev =
     (let props = getProperties (url (request ev))
      in if missingSlash props
         then redirect_run parseURL (url (request ev) @ ''/'')
         else fetch_and_respond ws_setCachePolicy origin kv ev
                (isFile props) (fileExtension props))"
  by (simp add: ws_handleEvent_def ws_respond_eq getProperties_def redirect_run_def
        new_URL_def Let_def split: option.split)

lemma fetch_and_respond_success:
  assumes "kv ev primary_options = Inr page"
  shows "fetch_and_respond cp origin kv ev f x =
           (Inr \<lparr>body = body page, status = status page,
                 headers = (if f then cp (security_headers (headers page)) x
                            else security_headers (headers page))\<rparr>,
            [(ev, primary_options)])"
  using assms by (simp add: fetch_and_respond_def)

lemma fetch_and_respond_failure:
  assumes "kv ev primary_options = Inl e"
  shows "fetch_and_respond cp origin kv ev f x =
           (case kv ev (notFound_options origin) of
              Inr nf \<Rightarrow> Inr \<lparr>body = body nf, status = 404, headers = Map.empty\<rparr>
            | Inl e' \<Rightarrow>
                Inr \<lparr>body = error_text e, status = 500,
                      headers = headers_set Map.empty ''Content-Type''
                                  ''text/plain;charset=UTF-8''\<rparr>,
            [(ev, primary_options), (ev, notFound_options origin)])"
  using assms by (simp add: fetch_and_respond_def)

lemma fetch_and_respond_cong:
  assumes "kv ev primary_options = kv' ev primary_options"
      and "kv ev (notFound_options origin) = kv' ev (notFound_options origin)"
  shows "fetch_and_respond cp origin kv ev f x = fetch_and_respond cp origin kv' ev f x"
  unfolding fetch_and_respond_def assms by (rule refl)

lemma fetch_and_respond_log:
  "\<exists>rest. snd (fetch_and_respond cp origin kv ev f x) = (ev, primary_options) # rest"
  by (simp add: fetch_and_respond_def split: sum.split)

section \<open>Further facts used by the claims\<close>

lemma getProperties_not_file_extension:
  "\<not> isFile (getProperties u) \<Longrightarrow> fileExtension (getProperties u) = []"
  by (simp add: getProperties_def Let_def split: if_splits)

lemma getProperties_slash_not_atRoot:
  "CHR ''/'' \<in> set u \<Longrightarrow> atRoot (getProperties u) = False"
  by (simp add: getProperties_def Let_def lastIndexOf_present)

lemma Response_redirect_fields:
  "status (Response_redirect (URL t) st) = st"
  "headers_get (headers (Response_redirect (URL t) st)) ''Location'' = Some t"
  by (simp_all add: Response_redirect_def headers_get_set)

lemma redirect_run_log: "snd (redirect_run parseURL s) = []"
  by (simp add: redirect_run_def split: option.split)

lemma redirect_run_parsed:
  "parseURL s = Some h \<Longrightarrow> redirect_run parseURL s = (Inr (Response_redirect (URL h) 301), [])"
  by (simp add: redirect_run_def)

section \<open>The claims\<close>

text \<open>
  C1, as amended. \<open>setCachePolicy\<close> of the script that classifies with \<open>getProperties\<close>
  sets \<open>Cache-Control\<close> to exactly \<open>max-age=31536000, public\<close> for every extension of
  the long-term table and to exactly \<open>max-age=604800, public\<close> for \<open>.ico\<close> and \<open>.json\<close>,
  and leaves the headers alone for every other string (the match is on the whole
  string, case included). \<open>setCachePolicy\<close> of \<open>workers-site/index.js\<close> has one table,
  \<open>.css .ttf .woff .woff2 .js\<close>, for which it sets exactly \<open>max-age=31536000\<close>; it leaves
  the headers alone for every other extension.
\<close>

theorem setCachePolicy_directives:
  "(extension \<in> {''.css'', ''.ttf'', ''.woff'', ''.woff2'', ''.js'', ''.png'', ''.jpg'',
                  ''.jpeg'', ''.webp'', ''.svg''} \<longrightarrow>
      headers_get (setCachePolicy h extension) ''Cache-Control''
        = Some ''max-age=31536000, public'')
   \<and> (extension \<in> {''.ico'', ''.json''} \<longrightarrow>
      headers_get (setCachePolicy h extension) ''Cache-Control''
        = Some ''max-age=604800, public'')
   \<and> (extension \<in> {''.css'', ''.ttf'', ''.woff'', ''.woff2'', ''.js''} \<longrightarrow>
      headers_get (ws_setCachePolicy h extension) ''Cache-Control'' = Some ''max-age=31536000'')
   \<and> (extension \<notin> {''.css'', ''.ttf'', ''.woff'', ''.woff2'', ''.js''} \<longrightarrow>
      ws_setCachePolicy h extension = h)
   \<and> (extension \<notin> {''.css'', ''.ttf'', ''.woff'', ''.woff2'', ''.js'', ''.png'', ''.jpg'',
                     ''.jpeg'', ''.webp'', ''.svg'', ''.ico'', ''.json''} \<longrightarrow>
      setCachePolicy h extension = h)"
proof (intro conjI impI)
  assume "extension \<in> {''.css'', ''.ttf'', ''.woff'', ''.woff2'', ''.js'', ''.png'', ''.jpg'',
                  ''.jpeg'', ''.webp'', ''.svg''}"
  then show "headers_get (setCachePolicy h extension) ''Cache-Control''
        = Some ''max-age=31536000, public''"
    by (simp add: setCachePolicy_def Let_def headers_get_set)
next
  assume a: "extension \<in> {''.ico'', ''.json''}"
  then have "extension \<notin> {''.css'', ''.ttf'', ''.woff'', ''.woff2'', ''.js'', ''.png'', ''.jpg'',
                  ''.jpeg'', ''.webp'', ''.svg''}" by auto
  with a show "headers_get (setCachePolicy h extension) ''Cache-Control''
        = Some ''max-age=604800, public''"
    by (simp add: setCachePolicy_def Let_def headers_get_set)
next
  assume "extension \<in> {''.css'', ''.ttf'', ''.woff'', ''.woff2'', ''.js''}"
  then show "headers_get (ws_setCachePolicy h extension) ''Cache-Control'' = Some ''max-age=31536000''"
    by (simp add: ws_setCachePolicy_def Let_def headers_get_set)
next
  assume "extension \<notin> {''.css'', ''.ttf'', ''.woff'', ''.woff2'', ''.js''}"
  then show "ws_setCachePolicy h extension = h" by (rule ws_setCachePolicy_untouched)
next
  assume "extension \<notin> {''.css'', ''.ttf'', ''.woff'', ''.woff2'', ''.js'', ''.png'', ''.jpg'',
                     ''.jpeg'', ''.webp'', ''.svg'', ''.ico'', ''.json''}"
  then show "setCachePolicy h extension = h" by (rule setCachePolicy_untouched)
qed

theorem setCachePolicy_directives_witness:
  "headers_get (setCachePolicy Map.empty ''.png'') ''Cache-Control''
     = Some ''max-age=31536000, public''
   \<and> headers_get (setCachePolicy Map.empty ''.json'') ''Cache-Control''
     = Some ''max-age=604800, public''
   \<and> headers_get (ws_setCachePolicy Map.empty ''.js'') ''Cache-Control''
     = Some ''max-age=31536000''
   \<and> ws_setCachePolicy Map.empty ''.png'' = Map.empty
   \<and> setCachePolicy Map.empty ''.CSS'' = Map.empty
   \<and> setCachePolicy Map.empty ''css'' = Map.empty"
  using setCachePolicy_directives [of "''.png''" Map.empty]
    setCachePolicy_directives [of "''.json''" Map.empty]
    setCachePolicy_directives [of "''.js''" Map.empty]
    setCachePolicy_directives [of "''.CSS''" Map.empty]
    setCachePolicy_directives [of "''css''" Map.empty]
  by simp

text \<open>
  C1 as first stated does not hold of \<open>workers-site/index.js\<close>: there \<open>.png\<close> and \<open>.ico\<close>
  get no \<open>Cache-Control\<close> at all, and \<open>.css\<close> gets a directive without \<open>public\<close>.
\<close>

theorem ws_setCachePolicy_counterexample:
  "headers_get (ws_setCachePolicy Map.empty ''.png'') ''Cache-Control''
     \<noteq> Some ''max-age=31536000, public''
   \<and> headers_get (ws_setCachePolicy Map.empty ''.css'') ''Cache-Control''
     \<noteq> Some ''max-age=31536000, public''
   \<and> headers_get (ws_setCachePolicy Map.empty ''.ico'') ''Cache-Control''
     \<noteq> Some ''max-age=604800, public''"
  by (simp add: ws_setCachePolicy_def Let_def headers_get_set headers_get_empty)

text \<open>
  C2. When the handler does not redirect and the primary fetch fails with error \<open>e\<close>, it
  makes exactly one more fetch, whose remapping hook sends a request to \<open>/404.html\<close> at
  the origin of that request's URL. If that fetch succeeds, the response has status 404
  and the body of the 404 asset, and neither the five security headers nor a cache
  policy are on it: the init of that response is the spread asset with the status
  replaced, which carries no headers, and a stream body adds none. If the second fetch
  fails too, the response has status 500 and as body the message of \<open>e\<close>, or the string
  form of \<open>e\<close> when the message is absent or empty; its only header is the content type
  of a string body. Both scripts behave so.
\<close>

theorem fallback_404_then_500:
  assumes "\<not> missingSlash (getProperties (url (request ev)))"
      and "kv ev primary_options = Inl e"
      and "r = handleEvent parseURL origin kv ev \<or> r = ws_handleEvent parseURL origin kv ev"
  shows "snd r = [(ev, primary_options), (ev, notFound_options origin)]
         \<and> (\<exists>f. mapRequestToAsset (notFound_options origin) = Some f
                \<and> (\<forall>req. f req = req\<lparr>url := origin (url req) @ ''/404.html''\<rparr>))
         \<and> (\<forall>nf. kv ev (notFound_options origin) = Inr nf \<longrightarrow>
                (\<exists>resp. fst r = Inr resp \<and> status resp = 404 \<and> body resp = body nf
                   \<and> headers resp = Map.empty
                   \<and> headers_get (headers resp) ''X-XSS-Protection'' = None
                   \<and> headers_get (headers resp) ''X-Content-Type-Options'' = None
                   \<and> headers_get (headers resp) ''X-Frame-Options'' = None
                   \<and> headers_get (headers resp) ''Referrer-Policy'' = None
                   \<and> headers_get (headers resp) ''Feature-Policy'' = None
                   \<and> headers_get (headers resp) ''Cache-Control'' = None))
         \<and> (\<forall>e'. kv ev (notFound_options origin) = Inl e' \<longrightarrow>
                (\<exists>resp. fst r = Inr resp \<and> status resp = 500
                   \<and> body resp = (case message e of
                                     None \<Rightarrow> toString e
                                   | Some m \<Rightarrow> if m = [] then toString e else m)
                   \<and> headers resp = headers_set Map.empty ''Content-Type''
                                       ''text/plain;charset=UTF-8''))"
proof -
  from assms have r: "r =
     (case kv ev (notFound_options origin) of
        Inr nf \<Rightarrow> Inr \<lparr>body = body nf, status = 404, headers = Map.empty\<rparr>
      | Inl e' \<Rightarrow>
          Inr \<lparr>body = error_text e, status = 500,
                headers = headers_set Map.empty ''Content-Type'' ''text/plain;charset=UTF-8''\<rparr>,
      [(ev, primary_options), (ev, notFound_options origin)])"
    by (auto simp: handleEvent_classified ws_handleEvent_classified Let_def
          fetch_and_respond_failure)
  have f: "\<exists>f. mapRequestToAsset (notFound_options origin) = Some f
                \<and> (\<forall>req. f req = req\<lparr>url := origin (url req) @ ''/404.html''\<rparr>)"
    by (simp add: notFound_options_def new_Request_def)
  from r f show ?thesis by (simp add: error_text_def headers_get_empty)
qed

theorem fallback_404_then_500_witness:
  "handleEvent Some (\<lambda>u. ''https://site'')
     (\<lambda>ev opts. case mapRequestToAsset opts of
          None \<Rightarrow> Inl \<lparr>message = Some ''no such key'', toString = ''Error: no such key''\<rparr>
        | Some f \<Rightarrow> Inr \<lparr>body = ''gone'', status = 200,
                           headers = headers_set Map.empty ''Content-Type'' ''text/html''\<rparr>)
     \<lparr>request = \<lparr>url = ''https://site/missing.html'', req_method = ''GET''\<rparr>\<rparr>
   = (Inr \<lparr>body = ''gone'', status = 404, headers = Map.empty\<rparr>,
      [(\<lparr>request = \<lparr>url = ''https://site/missing.html'', req_method = ''GET''\<rparr>\<rparr>, primary_options),
       (\<lparr>request = \<lparr>url = ''https://site/missing.html'', req_method = ''GET''\<rparr>\<rparr>,
        notFound_options (\<lambda>u. ''https://site''))])
   \<and> fst (ws_handleEvent Some (\<lambda>u. ''https://site'')
     (\<lambda>ev opts. Inl \<lparr>message = None, toString = ''KVError''\<rparr>)
     \<lparr>request = \<lparr>url = ''https://site/missing.html'', req_method = ''GET''\<rparr>\<rparr>)
   = Inr \<lparr>body = ''KVError'', status = 500,
          headers = headers_set Map.empty ''Content-Type'' ''text/plain;charset=UTF-8''\<rparr>"
proof -
  let ?o = "\<lambda>u::string. ''https://site''"
  let ?ev = "\<lparr>request = \<lparr>url = ''https://site/missing.html'', req_method = ''GET''\<rparr>\<rparr>"
  let ?e = "\<lparr>message = Some ''no such key'', toString = ''Error: no such key''\<rparr>"
  let ?nf = "\<lparr>body = ''gone'', status = 200,
              headers = headers_set Map.empty ''Content-Type'' ''text/html''\<rparr>"
  let ?kv = "\<lambda>(ev::event) opts. case mapRequestToAsset opts of
          None \<Rightarrow> Inl ?e | Some f \<Rightarrow> Inr ?nf"
  let ?e' = "\<lparr>message = None, toString = ''KVError''\<rparr>"
  let ?kv' = "\<lambda>(ev::event) (opts::options). (Inl ?e' :: error + response)"
  have 1: "\<not> missingSlash (getProperties (url (request ?ev)))"
    by (simp add: getProperties_def endsWith_def lastIndexOf_def substr_def Let_def)
  have 2: "?kv ?ev primary_options = Inl ?e"
    by (simp add: primary_options_def DEBUG_def)
  have n: "?kv ?ev (notFound_options ?o) = Inr ?nf"
    by (simp add: notFound_options_def)
  have q2: "?kv' ?ev primary_options = Inl ?e'" by simp
  have n': "?kv' ?ev (notFound_options ?o) = Inl ?e'" by simp
  from fallback_404_then_500 [where kv = ?kv and ev = ?ev and e = ?e and origin = ?o
      and parseURL = Some and r = "handleEvent Some ?o ?kv ?ev", OF 1] 2 n
  have a: "handleEvent Some ?o ?kv ?ev =
             (Inr \<lparr>body = ''gone'', status = 404, headers = Map.empty\<rparr>,
              [(?ev, primary_options), (?ev, notFound_options ?o)])"
    by (auto simp: prod_eq_iff)
  from fallback_404_then_500 [where kv = ?kv' and ev = ?ev and e = ?e' and origin = ?o
      and parseURL = Some and r = "ws_handleEvent Some ?o ?kv' ?ev", OF 1] q2 n'
  have b: "fst (ws_handleEvent Some ?o ?kv' ?ev) =
             Inr \<lparr>body = ''KVError'', status = 500,
                   headers = headers_set Map.empty ''Content-Type'' ''text/plain;charset=UTF-8''\<rparr>"
    by auto
  from a b show ?thesis by simp
qed

text \<open>
  C3. When the final path segment of the URL (what follows its last \<open>/\<close>) contains a
  \<open>.\<close>, the classifier answers \<open>isFile = true\<close>, and \<open>fileExtension\<close> is the text from the
  last \<open>.\<close> of that segment to the end of the string, dot included.
\<close>

theorem getProperties_file_extension:
  assumes "url_string = pre @ CHR ''/'' # seg"
      and "CHR ''/'' \<notin> set seg"
      and "CHR ''.'' \<in> set seg"
  shows "\<exists>stem ext. seg = stem @ CHR ''.'' # ext \<and> CHR ''.'' \<notin> set ext
           \<and> isFile (getProperties url_string) = True
           \<and> fileExtension (getProperties url_string) = CHR ''.'' # ext"
proof -
  from assms(3) obtain stem ext where s: "seg = stem @ CHR ''.'' # ext" "CHR ''.'' \<notin> set ext"
    by (auto dest: split_list_last)
  from assms(2) s(1) have "CHR ''/'' \<notin> set (stem @ CHR ''.'' # ext)" by simp
  from getProperties_dot[OF this s(2), of pre] assms(1) s(1)
  have "getProperties url_string =
          \<lparr>isFile = True, fileExtension = CHR ''.'' # ext, missingSlash = False, atRoot = False\<rparr>"
    by simp
  with s show ?thesis by simp
qed

theorem getProperties_file_extension_witness:
  "(\<exists>stem ext. ''b.tar.gz'' = stem @ CHR ''.'' # ext \<and> CHR ''.'' \<notin> set ext
      \<and> isFile (getProperties ''/a/b.tar.gz'') = True
      \<and> fileExtension (getProperties ''/a/b.tar.gz'') = CHR ''.'' # ext)
   \<and> fileExtension (getProperties ''/a/b.tar.gz'') = ''.gz''"
proof -
  have 1: "''/a/b.tar.gz'' = ''/a'' @ CHR ''/'' # ''b.tar.gz''" by simp
  have 2: "CHR ''/'' \<notin> set ''b.tar.gz''" by simp
  have 3: "CHR ''.'' \<in> set ''b.tar.gz''" by simp
  have 4: "fileExtension (getProperties ''/a/b.tar.gz'') = ''.gz''" by code_simp
  from getProperties_file_extension [OF 1 2 3] 4 show ?thesis by blast
qed

text \<open>
  C4. When the URL does not end in \<open>/\<close>, contains a \<open>/\<close>, and has no \<open>.\<close> in its final
  path segment, the classifier answers \<open>missingSlash = true\<close> and the handler ends at
  \<open>Response.redirect(new URL(url_string + '/'), 301)\<close> without any call to the asset
  store. When the host's parser accepts the URL with \<open>/\<close> appended, the response has
  status 301 and its \<open>Location\<close> is the serialised form the parser gives; that is the
  URL with \<open>/\<close> appended whenever the parser leaves that string as it is, which is the
  case of the serialised absolute URL a request carries. When the parser rejects the
  string, the run ends with the \<open>TypeError\<close> of the constructor. Both scripts behave so.
\<close>

theorem missing_slash_redirect:
  assumes "url (request ev) = pre @ CHR ''/'' # seg"
      and "seg \<noteq> []"
      and "CHR ''/'' \<notin> set seg"
      and "CHR ''.'' \<notin> set seg"
      and "r = handleEvent parseURL origin kv ev \<or> r = ws_handleEvent parseURL origin kv ev"
  shows "missingSlash (getProperties (url (request ev))) = True
         \<and> snd r = []
         \<and> (parseURL (url (request ev) @ ''/'') = None \<longrightarrow> fst r = Inl TypeError)
         \<and> (\<forall>h. parseURL (url (request ev) @ ''/'') = Some h \<longrightarrow>
               (\<exists>resp. fst r = Inr resp \<and> status resp = 301
                  \<and> headers_get (headers resp) ''Location'' = Some h))
         \<and> (parseURL (url (request ev) @ ''/'') = Some (url (request ev) @ ''/'') \<longrightarrow>
               (\<exists>resp. fst r = Inr resp \<and> status resp = 301
                  \<and> headers_get (headers resp) ''Location'' = Some (url (request ev) @ ''/'')))"
proof -
  have m: "missingSlash (getProperties (url (request ev))) = True"
    using assms(1-4) by (simp add: getProperties_no_dot)
  then have r: "r = redirect_run parseURL (url (request ev) @ ''/'')"
    using assms(5) by (auto simp: handleEvent_classified ws_handleEvent_classified Let_def)
  have a: "snd r = []" unfolding r by (rule redirect_run_log)
  have b: "parseURL (url (request ev) @ ''/'') = None \<longrightarrow> fst r = Inl TypeError"
    unfolding r by (simp add: redirect_run_def)
  have c: "\<And>h. parseURL (url (request ev) @ ''/'') = Some h \<Longrightarrow>
               (\<exists>resp. fst r = Inr resp \<and> status resp = 301
                  \<and> headers_get (headers resp) ''Location'' = Some h)"
    unfolding r by (simp add: redirect_run_parsed Response_redirect_fields)
  from m a b c show ?thesis by blast
qed

theorem missing_slash_redirect_witness:
  "(\<exists>resp. fst (handleEvent Some (\<lambda>u. ''https://site'')
              (\<lambda>ev opts. Inl \<lparr>message = None, toString = ''unused''\<rparr>)
              \<lparr>request = \<lparr>url = ''https://site/about'', req_method = ''GET''\<rparr>\<rparr>) = Inr resp
      \<and> status resp = 301
      \<and> headers_get (headers resp) ''Location'' = Some ''https://site/about/'')
   \<and> snd (handleEvent Some (\<lambda>u. ''https://site'')
              (\<lambda>ev opts. Inl \<lparr>message = None, toString = ''unused''\<rparr>)
              \<lparr>request = \<lparr>url = ''https://site/about'', req_method = ''GET''\<rparr>\<rparr>) = []
   \<and> snd (ws_handleEvent Some (\<lambda>u. ''https://site'')
              (\<lambda>ev opts. Inl \<lparr>message = None, toString = ''unused''\<rparr>)
              \<lparr>request = \<lparr>url = ''https://site/about'', req_method = ''GET''\<rparr>\<rparr>) = []
   \<and> fst (ws_handleEvent (\<lambda>s. None) (\<lambda>u. ''https://site'')
              (\<lambda>ev opts. Inl \<lparr>message = None, toString = ''unused''\<rparr>)
              \<lparr>request = \<lparr>url = ''https://site/about'', req_method = ''GET''\<rparr>\<rparr>) = Inl TypeError"
proof -
  let ?ev = "\<lparr>request = \<lparr>url = ''https://site/about'', req_method = ''GET''\<rparr>\<rparr>"
  let ?kv = "\<lambda>(ev::event) (opts::options). (Inl \<lparr>message = None, toString = ''unused''\<rparr> :: error + response)"
  let ?o = "\<lambda>u::string. ''https://site''"
  let ?none = "\<lambda>s::string. (None :: string option)"
  have 1: "url (request ?ev) = ''https://site'' @ CHR ''/'' # ''about''" by simp
  have 2: "''about'' \<noteq> []" by simp
  have 3: "CHR ''/'' \<notin> set ''about''" by simp
  have 4: "CHR ''.'' \<notin> set ''about''" by simp
  have a: "handleEvent Some ?o ?kv ?ev = handleEvent Some ?o ?kv ?ev
           \<or> handleEvent Some ?o ?kv ?ev = ws_handleEvent Some ?o ?kv ?ev"
    by simp
  have b: "ws_handleEvent Some ?o ?kv ?ev = handleEvent Some ?o ?kv ?ev
           \<or> ws_handleEvent Some ?o ?kv ?ev = ws_handleEvent Some ?o ?kv ?ev"
    by simp
  have c: "ws_handleEvent ?none ?o ?kv ?ev = handleEvent ?none ?o ?kv ?ev
           \<or> ws_handleEvent ?none ?o ?kv ?ev = ws_handleEvent ?none ?o ?kv ?ev"
    by simp
  show ?thesis
    using missing_slash_redirect [OF 1 2 3 4 a] missing_slash_redirect [OF 1 2 3 4 b]
      missing_slash_redirect [OF 1 2 3 4 c]
    by simp
qed

text \<open>
  C5. Whenever the handler does not redirect and the primary fetch succeeds, the
  run returns a response, and it carries the five security headers with exactly their
  fixed values, whatever the classification and whatever headers the asset had. Both
  scripts behave so.
\<close>

theorem success_sets_security_headers:
  assumes "\<not> missingSlash (getProperties (url (request ev)))"
      and "kv ev primary_options = Inr page"
      and "out = fst (handleEvent parseURL origin kv ev)
           \<or> out = fst (ws_handleEvent parseURL origin kv ev)"
  shows "\<exists>r. out = Inr r
         \<and> headers_get (headers r) ''X-XSS-Protection'' = Some ''1; mode=block''
         \<and> headers_get (headers r) ''X-Content-Type-Options'' = Some ''nosniff''
         \<and> headers_get (headers r) ''X-Frame-Options'' = Some ''DENY''
         \<and> headers_get (headers r) ''Referrer-Policy'' = Some ''unsafe-url''
         \<and> headers_get (headers r) ''Feature-Policy'' = Some ''none''"
proof -
  let ?p = "getProperties (url (request ev))"
  let ?s = "security_headers (headers page)"
  from assms have "(\<exists>r. out = Inr r \<and>
         headers r = (if isFile ?p then setCachePolicy ?s (fileExtension ?p) else ?s))
      \<or> (\<exists>r. out = Inr r \<and>
         headers r = (if isFile ?p then ws_setCachePolicy ?s (fileExtension ?p) else ?s))"
    by (auto simp: handleEvent_classified ws_handleEvent_classified Let_def
          fetch_and_respond_success)
  then show ?thesis
  proof (elim disjE exE conjE)
    fix r
    assume "out = Inr r"
      and "headers r = (if isFile ?p then setCachePolicy ?s (fileExtension ?p) else ?s)"
    then show ?thesis
      by (simp add: setCachePolicy_other_header lower_name_literals security_headers_values)
  next
    fix r
    assume "out = Inr r"
      and "headers r = (if isFile ?p then ws_setCachePolicy ?s (fileExtension ?p) else ?s)"
    then show ?thesis
      by (simp add: ws_setCachePolicy_other_header lower_name_literals security_headers_values)
  qed
qed

theorem success_sets_security_headers_witness:
  "\<exists>r. fst (handleEvent Some (\<lambda>u. ''https://site'')
            (\<lambda>ev opts. Inr \<lparr>body = ''body {}'', status = 200, headers = Map.empty\<rparr>)
            \<lparr>request = \<lparr>url = ''https://site/style.css'', req_method = ''GET''\<rparr>\<rparr>) = Inr r
     \<and> headers_get (headers r) ''X-XSS-Protection'' = Some ''1; mode=block''
     \<and> headers_get (headers r) ''X-Content-Type-Options'' = Some ''nosniff''
     \<and> headers_get (headers r) ''X-Frame-Options'' = Some ''DENY''
     \<and> headers_get (headers r) ''Referrer-Policy'' = Some ''unsafe-url''
     \<and> headers_get (headers r) ''Feature-Policy'' = Some ''none''"
proof -
  let ?ev = "\<lparr>request = \<lparr>url = ''https://site/style.css'', req_method = ''GET''\<rparr>\<rparr>"
  let ?page = "\<lparr>body = ''body {}'', status = 200, headers = (Map.empty :: headers)\<rparr>"
  let ?kv = "\<lambda>(ev::event) (opts::options). (Inr ?page :: error + response)"
  let ?o = "\<lambda>u::string. ''https://site''"
  have 1: "\<not> missingSlash (getProperties (url (request ?ev)))"
    by (simp add: getProperties_def endsWith_def lastIndexOf_def substr_def Let_def)
  show ?thesis
    by (rule success_sets_security_headers [where kv = ?kv and ev = ?ev and page = ?page
          and origin = ?o and parseURL = Some, OF 1]) simp_all
qed

text \<open>
  C6. On the success path, when the request is not classified as a file or its
  extension is in neither cache table (the empty extension included), the cache policy
  changes nothing: the \<open>Cache-Control\<close> entry of the response is the one the asset
  already had, and so is every entry other than the five security headers.
  Both scripts behave so.
\<close>

theorem uncached_extension_leaves_cache_control:
  assumes "\<not> missingSlash (getProperties (url (request ev)))"
      and "kv ev primary_options = Inr page"
      and "\<not> isFile (getProperties (url (request ev)))
           \<or> fileExtension (getProperties (url (request ev))) \<notin>
               {''.css'', ''.ttf'', ''.woff'', ''.woff2'', ''.js'', ''.png'', ''.jpg'',
                ''.jpeg'', ''.webp'', ''.svg'', ''.ico'', ''.json''}"
      and "out = fst (handleEvent parseURL origin kv ev)
           \<or> out = fst (ws_handleEvent parseURL origin kv ev)"
  shows "\<exists>r. out = Inr r
         \<and> headers_get (headers r) ''Cache-Control'' = headers_get (headers page) ''Cache-Control''
         \<and> (\<forall>n. lower_name n \<notin> {''x-xss-protection'', ''x-content-type-options'',
                  ''x-frame-options'', ''referrer-policy'', ''feature-policy''} \<longrightarrow>
                headers_get (headers r) n = headers_get (headers page) n)
         \<and> setCachePolicy h (fileExtension (getProperties (url (request ev)))) = h
         \<and> ws_setCachePolicy h (fileExtension (getProperties (url (request ev)))) = h"
proof -
  let ?p = "getProperties (url (request ev))"
  let ?s = "security_headers (headers page)"
  have out: "fileExtension ?p \<notin>
               {''.css'', ''.ttf'', ''.woff'', ''.woff2'', ''.js'', ''.png'', ''.jpg'',
                ''.jpeg'', ''.webp'', ''.svg'', ''.ico'', ''.json''}"
    using assms(3) getProperties_not_file_extension[of "url (request ev)"] by auto
  then have u: "\<And>g. setCachePolicy g (fileExtension ?p) = g"
    by (rule setCachePolicy_untouched)
  from out have "fileExtension ?p \<notin> {''.css'', ''.ttf'', ''.woff'', ''.woff2'', ''.js''}"
    by simp
  then have w: "\<And>g. ws_setCachePolicy g (fileExtension ?p) = g"
    by (rule ws_setCachePolicy_untouched)
  from assms(1,2,4) have "\<exists>r. out = Inr r \<and> headers r = ?s"
    by (auto simp: handleEvent_classified ws_handleEvent_classified Let_def
          fetch_and_respond_success u w)
  then obtain r where "out = Inr r" "headers r = ?s" by blast
  then show ?thesis
    by (simp add: u w security_headers_cache_control security_headers_frame)
qed

theorem uncached_extension_leaves_cache_control_witness:
  "(\<exists>r. fst (handleEvent Some (\<lambda>u. ''https://site'')
       (\<lambda>ev opts. Inr \<lparr>body = ''<p>hi</p>'', status = 200,
                          headers = headers_set Map.empty ''cache-control'' ''no-store''\<rparr>)
       \<lparr>request = \<lparr>url = ''https://site/page.html'', req_method = ''GET''\<rparr>\<rparr>) = Inr r
      \<and> headers_get (headers r) ''Cache-Control'' = Some ''no-store'')
   \<and> (\<exists>r. fst (ws_handleEvent Some (\<lambda>u. ''https://site'')
       (\<lambda>ev opts. Inr \<lparr>body = ''<p>hi</p>'', status = 200, headers = Map.empty\<rparr>)
       \<lparr>request = \<lparr>url = ''https://site/docs/'', req_method = ''GET''\<rparr>\<rparr>) = Inr r
      \<and> headers_get (headers r) ''Cache-Control'' = None)"
proof -
  let ?o = "\<lambda>u::string. ''https://site''"
  let ?ev = "\<lparr>request = \<lparr>url = ''https://site/page.html'', req_method = ''GET''\<rparr>\<rparr>"
  let ?page = "\<lparr>body = ''<p>hi</p>'', status = 200,
                headers = headers_set Map.empty ''cache-control'' ''no-store''\<rparr>"
  let ?kv = "\<lambda>(ev::event) (opts::options). (Inr ?page :: error + response)"
  let ?ev' = "\<lparr>request = \<lparr>url = ''https://site/docs/'', req_method = ''GET''\<rparr>\<rparr>"
  let ?page' = "\<lparr>body = ''<p>hi</p>'', status = 200, headers = (Map.empty :: headers)\<rparr>"
  let ?kv' = "\<lambda>(ev::event) (opts::options). (Inr ?page' :: error + response)"
  have p: "getProperties ''https://site/page.html'' =
             \<lparr>isFile = True, fileExtension = ''.html'', missingSlash = False, atRoot = False\<rparr>"
    by (simp add: getProperties_def endsWith_def lastIndexOf_def substr_def Let_def)
  have p': "getProperties ''https://site/docs/'' =
             \<lparr>isFile = False, fileExtension = [], missingSlash = False, atRoot = False\<rparr>"
    by (simp add: getProperties_def endsWith_def)
  have 1: "\<not> missingSlash (getProperties (url (request ?ev)))" by (simp add: p)
  have 3: "\<not> isFile (getProperties (url (request ?ev)))
           \<or> fileExtension (getProperties (url (request ?ev))) \<notin>
               {''.css'', ''.ttf'', ''.woff'', ''.woff2'', ''.js'', ''.png'', ''.jpg'',
                ''.jpeg'', ''.webp'', ''.svg'', ''.ico'', ''.json''}"
    by (simp add: p)
  have q1: "\<not> missingSlash (getProperties (url (request ?ev')))" by (simp add: p')
  have q3: "\<not> isFile (getProperties (url (request ?ev')))
           \<or> fileExtension (getProperties (url (request ?ev'))) \<notin>
               {''.css'', ''.ttf'', ''.woff'', ''.woff2'', ''.js'', ''.png'', ''.jpg'',
                ''.jpeg'', ''.webp'', ''.svg'', ''.ico'', ''.json''}"
    by (simp add: p')
  have l: "lower_name ''cache-control'' = ''cache-control''" by code_simp
  have a: "\<exists>r. fst (handleEvent Some ?o ?kv ?ev) = Inr r
             \<and> headers_get (headers r) ''Cache-Control'' = headers_get (headers ?page) ''Cache-Control''"
    using uncached_extension_leaves_cache_control [where kv = ?kv and ev = ?ev
        and page = ?page and origin = ?o and parseURL = Some and h = Map.empty
        and out = "fst (handleEvent Some ?o ?kv ?ev)", OF 1 _ 3]
    by auto
  have b: "\<exists>r. fst (ws_handleEvent Some ?o ?kv' ?ev') = Inr r
             \<and> headers_get (headers r) ''Cache-Control'' = headers_get (headers ?page') ''Cache-Control''"
    using uncached_extension_leaves_cache_control [where kv = ?kv' and ev = ?ev'
        and page = ?page' and origin = ?o and parseURL = Some and h = Map.empty
        and out = "fst (ws_handleEvent Some ?o ?kv' ?ev')", OF q1 _ q3]
    by auto
  from a b show ?thesis
    by (simp add: headers_get_set headers_get_empty lower_name_literals l)
qed

text \<open>
  C7. For every URL string the classification satisfies the three invariants: a file
  has a non-empty extension; \<open>missingSlash\<close> and \<open>isFile\<close> never hold together; \<open>atRoot\<close>
  excludes both \<open>isFile\<close> and \<open>missingSlash\<close>.
\<close>

theorem getProperties_invariants:
  "(isFile (getProperties url_string) \<longrightarrow> fileExtension (getProperties url_string) \<noteq> [])
   \<and> \<not> (missingSlash (getProperties url_string) \<and> isFile (getProperties url_string))
   \<and> (atRoot (getProperties url_string) \<longrightarrow>
        \<not> isFile (getProperties url_string) \<and> \<not> missingSlash (getProperties url_string))"
proof (intro conjI)
  show "isFile (getProperties url_string) \<longrightarrow> fileExtension (getProperties url_string) \<noteq> []"
    by (simp add: getProperties_extension_nonempty)
  show "\<not> (missingSlash (getProperties url_string) \<and> isFile (getProperties url_string))"
    by (simp add: getProperties_def Let_def)
  show "atRoot (getProperties url_string) \<longrightarrow>
        \<not> isFile (getProperties url_string) \<and> \<not> missingSlash (getProperties url_string)"
    by (simp add: getProperties_def Let_def)
qed

theorem getProperties_invariants_witness:
  "isFile (getProperties ''https://site/style.css'')
   \<and> fileExtension (getProperties ''https://site/style.css'') \<noteq> []
   \<and> \<not> missingSlash (getProperties ''https://site/style.css'')
   \<and> atRoot (getProperties ''index'')
   \<and> \<not> isFile (getProperties ''index'') \<and> \<not> missingSlash (getProperties ''index'')
   \<and> missingSlash (getProperties ''https://site/about'')
   \<and> \<not> isFile (getProperties ''https://site/about'')"
proof -
  have a: "isFile (getProperties ''https://site/style.css'')" by code_simp
  have b: "atRoot (getProperties ''index'')" by code_simp
  have c: "missingSlash (getProperties ''https://site/about'')" by code_simp
  show ?thesis
    using a b c getProperties_invariants [of "''https://site/style.css''"]
      getProperties_invariants [of "''index''"]
      getProperties_invariants [of "''https://site/about''"]
    by blast
qed

text \<open>
  C8. For every URL string ending in \<open>/\<close> the classifier answers \<open>isFile = false\<close> and
  \<open>missingSlash = false\<close>. The classifier has no failing branch: \<open>endsWith\<close>,
  \<open>lastIndexOf\<close> and \<open>substr\<close> answer for every string and every index, so every string
  yields a classification.
\<close>

theorem getProperties_trailing_slash_total:
  "(endsWith url_string CHR ''/'' \<longrightarrow>
      isFile (getProperties url_string) = False \<and> missingSlash (getProperties url_string) = False)
   \<and> (\<exists>p. getProperties url_string = p)"
  by (simp add: getProperties_trailing_slash)

theorem getProperties_trailing_slash_total_witness:
  "endsWith ''https://site/about/'' CHR ''/''
   \<and> isFile (getProperties ''https://site/about/'') = False
   \<and> missingSlash (getProperties ''https://site/about/'') = False"
proof -
  have e: "endsWith ''https://site/about/'' CHR ''/''" by (simp add: endsWith_def)
  with getProperties_trailing_slash_total [of "''https://site/about/''"] show ?thesis by blast
qed

text \<open>
  C9. The outcome and the fetches of a run depend only on the request and on what the
  asset store answers to the primary fetch and to the \<open>/404.html\<close> fetch of that request:
  two stores that agree on these two calls yield the same run. In particular two runs
  on the same request against the same store yield identical responses. Both scripts
  behave so.
\<close>

theorem handleEvent_deterministic:
  assumes "kv ev primary_options = kv' ev primary_options"
      and "kv ev (notFound_options origin) = kv' ev (notFound_options origin)"
  shows "handleEvent parseURL origin kv ev = handleEvent parseURL origin kv' ev
         \<and> ws_handleEvent parseURL origin kv ev = ws_handleEvent parseURL origin kv' ev"
  using fetch_and_respond_cong [where kv = kv and kv' = kv' and ev = ev and origin = origin,
      OF assms]
  by (simp add: handleEvent_classified ws_handleEvent_classified Let_def)

theorem handleEvent_deterministic_witness:
  "handleEvent Some (\<lambda>u. ''https://site'')
     (\<lambda>ev opts. Inr \<lparr>body = ''body {}'', status = 200, headers = Map.empty\<rparr>)
     \<lparr>request = \<lparr>url = ''https://site/style.css'', req_method = ''GET''\<rparr>\<rparr>
   = handleEvent Some (\<lambda>u. ''https://site'')
     (\<lambda>ev opts. if url (request ev) = ''https://site/style.css''
                 then Inr \<lparr>body = ''body {}'', status = 200, headers = Map.empty\<rparr>
                 else Inl \<lparr>message = None, toString = ''KVError''\<rparr>)
     \<lparr>request = \<lparr>url = ''https://site/style.css'', req_method = ''GET''\<rparr>\<rparr>
   \<and> ws_handleEvent Some (\<lambda>u. ''https://site'')
     (\<lambda>ev opts. Inr \<lparr>body = ''body {}'', status = 200, headers = Map.empty\<rparr>)
     \<lparr>request = \<lparr>url = ''https://site/style.css'', req_method = ''GET''\<rparr>\<rparr>
   = ws_handleEvent Some (\<lambda>u. ''https://site'')
     (\<lambda>ev opts. if url (request ev) = ''https://site/style.css''
                 then Inr \<lparr>body = ''body {}'', status = 200, headers = Map.empty\<rparr>
                 else Inl \<lparr>message = None, toString = ''KVError''\<rparr>)
     \<lparr>request = \<lparr>url = ''https://site/style.css'', req_method = ''GET''\<rparr>\<rparr>"
proof -
  let ?o = "\<lambda>u::string. ''https://site''"
  let ?ev = "\<lparr>request = \<lparr>url = ''https://site/style.css'', req_method = ''GET''\<rparr>\<rparr>"
  let ?page = "\<lparr>body = ''body {}'', status = 200, headers = (Map.empty :: headers)\<rparr>"
  let ?kv = "\<lambda>(ev::event) (opts::options). (Inr ?page :: error + response)"
  let ?kv' = "\<lambda>(ev::event) (opts::options). if url (request ev) = ''https://site/style.css''
                 then Inr ?page else Inl \<lparr>message = None, toString = ''KVError''\<rparr>"
  show ?thesis
    by (rule handleEvent_deterministic [where kv = ?kv and kv' = ?kv' and ev = ?ev
          and origin = ?o and parseURL = Some]) simp_all
qed

text \<open>
  C10. For every URL string that contains a \<open>/\<close> the classifier answers
  \<open>atRoot = false\<close>, and the run is either the redirect statement
  \<open>Response.redirect(new URL(url_string + '/'), 301)\<close> with no call to the asset store, or
  it calls the asset store, its first call being the primary fetch. Both scripts behave
  so.
\<close>

theorem slash_never_atRoot:
  assumes "CHR ''/'' \<in> set (url (request ev))"
      and "r = handleEvent parseURL origin kv ev \<or> r = ws_handleEvent parseURL origin kv ev"
  shows "atRoot (getProperties (url (request ev))) = False
         \<and> (r = redirect_run parseURL (url (request ev) @ ''/'')
              \<or> (\<exists>rest. snd r = (ev, primary_options) # rest))"
proof -
  have a: "atRoot (getProperties (url (request ev))) = False"
    using assms(1) by (rule getProperties_slash_not_atRoot)
  have "r = redirect_run parseURL (url (request ev) @ ''/'')
          \<or> (\<exists>rest. snd r = (ev, primary_options) # rest)"
  proof (cases "missingSlash (getProperties (url (request ev)))")
    case True
    with assms(2) show ?thesis
      by (auto simp: handleEvent_classified ws_handleEvent_classified Let_def)
  next
    case False
    with assms(2) obtain cp f x where "r = fetch_and_respond cp origin kv ev f x"
      by (auto simp: handleEvent_classified ws_handleEvent_classified Let_def)
    then show ?thesis using fetch_and_respond_log [of cp origin kv ev f x] by simp
  qed
  with a show ?thesis by simp
qed

theorem slash_never_atRoot_witness:
  "atRoot (getProperties ''https://site/style.css'') = False
   \<and> (\<exists>rest. snd (handleEvent Some (\<lambda>u. ''https://site'')
          (\<lambda>ev opts. Inr \<lparr>body = ''body {}'', status = 200, headers = Map.empty\<rparr>)
          \<lparr>request = \<lparr>url = ''https://site/style.css'', req_method = ''GET''\<rparr>\<rparr>)
        = (\<lparr>request = \<lparr>url = ''https://site/style.css'', req_method = ''GET''\<rparr>\<rparr>, primary_options) # rest)"
proof -
  let ?o = "\<lambda>u::string. ''https://site''"
  let ?ev = "\<lparr>request = \<lparr>url = ''https://site/style.css'', req_method = ''GET''\<rparr>\<rparr>"
  let ?page = "\<lparr>body = ''body {}'', status = 200, headers = (Map.empty :: headers)\<rparr>"
  let ?kv = "\<lambda>(ev::event) (opts::options). (Inr ?page :: error + response)"
  have 1: "CHR ''/'' \<in> set (url (request ?ev))" by simp
  have 2: "handleEvent Some ?o ?kv ?ev = handleEvent Some ?o ?kv ?ev
           \<or> handleEvent Some ?o ?kv ?ev = ws_handleEvent Some ?o ?kv ?ev" by simp
  have m: "\<not> missingSlash (getProperties (url (request ?ev)))"
    by (simp add: getProperties_def endsWith_def lastIndexOf_def substr_def Let_def)
  have s: "snd (handleEvent Some ?o ?kv ?ev) \<noteq> []"
    using m by (simp add: handleEvent_classified Let_def fetch_and_respond_success)
  have "handleEvent Some ?o ?kv ?ev \<noteq> redirect_run Some (url (request ?ev) @ ''/'')"
  proof
    assume "handleEvent Some ?o ?kv ?ev = redirect_run Some (url (request ?ev) @ ''/'')"
    then have "snd (handleEvent Some ?o ?kv ?ev) = []"
      by (simp add: redirect_run_log)
    with s show False by simp
  qed
  with slash_never_atRoot [OF 1 2] show ?thesis by simp
qed

end
